theory Spec2Isabelle
  imports Main "HOL-Library.Word"
begin

section \<open>JavaScript strings and numbers\<close>

text \<open>
  A JavaScript string is a sequence of 16-bit code units. Equality (\<open>===\<close>, \<open>!==\<close>)
  compares the code units, and a regular expression without the \<open>u\<close> flag matches
  code units, so the model keeps them as they are.
\<close>

type_synonym jsstring = "16 word list"

definition js :: "string \<Rightarrow> jsstring" where
  \<comment> \<open>An ASCII literal of the source, as code units.\<close>
  "js s = map (\<lambda>c. of_nat (of_char c)) s"

definition truthy :: "jsstring option \<Rightarrow> bool" where
  \<comment> \<open>\<open>if (s)\<close> for \<open>s: string | null | undefined\<close>: the empty string is falsy too.\<close>
  "truthy s = (case s of None \<Rightarrow> False | Some t \<Rightarrow> t \<noteq> [])"

definition isWhiteSpace :: "16 word \<Rightarrow> bool" where
  \<comment> \<open>What \<open>String.prototype.trim\<close> removes: WhiteSpace and LineTerminator.\<close>
  "isWhiteSpace c =
     (c \<in> {0x09, 0x0A, 0x0B, 0x0C, 0x0D, 0x20, 0xA0, 0x1680, 0x2028, 0x2029,
            0x202F, 0x205F, 0x3000, 0xFEFF} \<or> (0x2000 \<le> c \<and> c \<le> 0x200A))"

definition trim :: "jsstring \<Rightarrow> jsstring" where
  "trim s = rev (dropWhile isWhiteSpace (rev (dropWhile isWhiteSpace s)))"

fun join :: "jsstring \<Rightarrow> jsstring list \<Rightarrow> jsstring" where
  \<comment> \<open>\<open>Array.prototype.join\<close> on an array of strings.\<close>
  "join sep [] = []"
| "join sep [x] = x"
| "join sep (x # y # ys) = x @ sep @ join sep (y # ys)"

text \<open>
  Every error the program can raise. \<open>BackendError\<close> is a rejected
  \<open>generateContent\<close> call, \<open>SyntaxError\<close> is thrown by \<open>JSON.parse\<close> and
  \<open>RangeError\<close> by \<open>Date.prototype.toISOString\<close> on an invalid date.
\<close>

datatype error = ApiKeyMissing | NoTextResponse | BackendError | SyntaxError | RangeError

definition digit :: "nat \<Rightarrow> 16 word" where
  "digit d = 0x30 + of_nat d"

fun digits :: "nat \<Rightarrow> jsstring" where
  "digits n = (if n < 10 then [digit n] else digits (n div 10) @ [digit (n mod 10)])"

declare digits.simps [simp del]

definition Number_toString :: "int \<Rightarrow> jsstring" where
  \<comment> \<open>\<open>Number.prototype.toString\<close> on an integer below \<open>10^21\<close> in size, as
     \<open>Date.now()\<close> is: the decimal digits.\<close>
  "Number_toString n = (if n < 0 then 0x2D # digits (nat (- n)) else digits (nat n))"

definition pad :: "nat \<Rightarrow> nat \<Rightarrow> jsstring" where
  "pad w n = replicate (w - length (digits n)) 0x30 @ digits n"

definition civil :: "int \<Rightarrow> int \<times> nat \<times> nat" where
  \<comment> \<open>Year, month and day of the proleptic Gregorian calendar, from the day number
     counted from 1970-01-01.\<close>
  "civil day =
     (let z = day + 719468;
          era = z div 146097;
          doe = z mod 146097;
          yoe = (doe - doe div 1460 + doe div 36524 - doe div 146096) div 365;
          doy = doe - (365 * yoe + yoe div 4 - yoe div 100);
          mp = (5 * doy + 2) div 153;
          d = doy - (153 * mp + 2) div 5 + 1;
          m = (if mp < 10 then mp + 3 else mp - 9);
          y = yoe + era * 400 + (if m \<le> 2 then 1 else 0)
      in (y, nat m, nat d))"

definition isoYear :: "int \<Rightarrow> jsstring" where
  "isoYear y =
     (if 0 \<le> y \<and> y \<le> 9999 then pad 4 (nat y)
      else (if y < 0 then 0x2D else 0x2B) # pad 6 (nat \<bar>y\<bar>))"

definition toISOString :: "int \<Rightarrow> error + jsstring" where
  \<comment> \<open>\<open>new Date(t).toISOString()\<close> for an integral time value \<open>t\<close> in milliseconds.\<close>
  "toISOString t =
     (if \<bar>t\<bar> > 8640000000000000 then Inl RangeError
      else
        let ms = t mod 86400000;
            (y, m, d) = civil (t div 86400000)
        in Inr (isoYear y @ js ''-'' @ pad 2 m @ js ''-'' @ pad 2 d @ js ''T'' @
                pad 2 (nat (ms div 3600000)) @ js '':'' @
                pad 2 (nat (ms div 60000 mod 60)) @ js '':'' @
                pad 2 (nat (ms div 1000 mod 60)) @ js ''.'' @
                pad 3 (nat (ms mod 1000)) @ js ''Z''))"

section \<open>JSON.parse\<close>

text \<open>
  The value \<open>JSON.parse\<close> returns. A number keeps the text of its literal (its value is
  a double, which the model does not compute); an object keeps its members in the order
  of the text, and a later member of the same name overrides an earlier one.
\<close>

datatype json =
    JNull
  | JBool bool
  | JNumber jsstring
  | JString jsstring
  | JArray "json list"
  | JObject "(jsstring \<times> json) list"

definition field :: "jsstring \<Rightarrow> json \<Rightarrow> json option" where
  \<comment> \<open>Property access \<open>v[k]\<close> on a parsed value; \<open>None\<close> is \<open>undefined\<close>.\<close>
  "field k v = (case v of JObject ms \<Rightarrow> map_of (rev ms) k | _ \<Rightarrow> None)"

definition isJSONWhiteSpace :: "16 word \<Rightarrow> bool" where
  "isJSONWhiteSpace c = (c = 0x09 \<or> c = 0x0A \<or> c = 0x0D \<or> c = 0x20)"

definition skipWs :: "jsstring \<Rightarrow> jsstring" where
  "skipWs s = dropWhile isJSONWhiteSpace s"

definition isDigit :: "16 word \<Rightarrow> bool" where
  "isDigit c = (0x30 \<le> c \<and> c \<le> 0x39)"

definition hexValue :: "16 word \<Rightarrow> 16 word option" where
  "hexValue c =
     (if 0x30 \<le> c \<and> c \<le> 0x39 then Some (c - 0x30)
      else if 0x41 \<le> c \<and> c \<le> 0x46 then Some (c - 0x41 + 10)
      else if 0x61 \<le> c \<and> c \<le> 0x66 then Some (c - 0x61 + 10)
      else None)"

definition hex4 :: "jsstring \<Rightarrow> 16 word option" where
  \<comment> \<open>The code unit of \<open>\uXXXX\<close>.\<close>
  "hex4 s =
     (case map hexValue s of
        [Some a, Some b, Some c, Some d] \<Rightarrow> Some (a * 0x1000 + b * 0x100 + c * 0x10 + d)
      | _ \<Rightarrow> None)"

definition unescape :: "16 word \<Rightarrow> 16 word option" where
  "unescape e =
     (if e = 0x22 then Some 0x22 else if e = 0x5C then Some 0x5C
      else if e = 0x2F then Some 0x2F else if e = 0x62 then Some 0x08
      else if e = 0x66 then Some 0x0C else if e = 0x6E then Some 0x0A
      else if e = 0x72 then Some 0x0D else if e = 0x74 then Some 0x09
      else None)"

definition consChar :: "16 word \<Rightarrow> (jsstring \<times> jsstring) option \<Rightarrow> (jsstring \<times> jsstring) option" where
  "consChar c r = (case r of None \<Rightarrow> None | Some (s, rest) \<Rightarrow> Some (c # s, rest))"

function parseChars :: "jsstring \<Rightarrow> (jsstring \<times> jsstring) option" where
  \<comment> \<open>The characters of a string literal after its opening quote: the string and the
     text after the closing quote.\<close>
  "parseChars [] = None"
| "parseChars (c # cs) =
     (if c = 0x22 then Some ([], cs)
      else if c = 0x5C then
        (case cs of
           [] \<Rightarrow> None
         | e # es \<Rightarrow>
             if e = 0x75 then
               (case hex4 (take 4 es) of
                  None \<Rightarrow> None
                | Some u \<Rightarrow> consChar u (parseChars (drop 4 es)))
             else
               (case unescape e of
                  None \<Rightarrow> None
                | Some u \<Rightarrow> consChar u (parseChars es)))
      else if c < 0x20 then None
      else consChar c (parseChars cs))"
  by pat_completeness auto
termination
  by (relation "measure length") auto

definition parseDigits :: "jsstring \<Rightarrow> (jsstring \<times> jsstring) option" where
  \<comment> \<open>One digit or more.\<close>
  "parseDigits s =
     (if takeWhile isDigit s = [] then None
      else Some (takeWhile isDigit s, dropWhile isDigit s))"

definition parseNumber :: "jsstring \<Rightarrow> (jsstring \<times> jsstring) option" where
  \<comment> \<open>\<open>-? (0 | [1-9][0-9]*) (. [0-9]+)? ([eE] [+-]? [0-9]+)?\<close>: the literal and the
     text after it.\<close>
  "parseNumber s =
     (let (sign, s1) = (case s of c # cs \<Rightarrow> if c = 0x2D then ([c], cs) else ([], s) | [] \<Rightarrow> ([], s)) in
      case (case s1 of
              [] \<Rightarrow> None
            | c # cs \<Rightarrow> if c = 0x30 then Some ([c], cs) else parseDigits s1) of
        None \<Rightarrow> None
      | Some (ip, s2) \<Rightarrow>
          (case (case s2 of
                   [] \<Rightarrow> Some ([], s2)
                 | c # cs \<Rightarrow>
                     if c = 0x2E then
                       (case parseDigits cs of None \<Rightarrow> None | Some (ds, r) \<Rightarrow> Some (c # ds, r))
                     else Some ([], s2)) of
             None \<Rightarrow> None
           | Some (fp, s3) \<Rightarrow>
               (case (case s3 of
                        [] \<Rightarrow> Some ([], s3)
                      | c # cs \<Rightarrow>
                          if c = 0x65 \<or> c = 0x45 then
                            (let (sg, cs') =
                               (case cs of
                                  g # gs \<Rightarrow> if g = 0x2B \<or> g = 0x2D then ([g], gs) else ([], cs)
                                | [] \<Rightarrow> ([], cs))
                             in case parseDigits cs' of
                                  None \<Rightarrow> None
                                | Some (ds, r) \<Rightarrow> Some (c # sg @ ds, r))
                          else Some ([], s3)) of
                  None \<Rightarrow> None
                | Some (ep, s4) \<Rightarrow> Some (sign @ ip @ fp @ ep, s4))))"

fun parseValue :: "nat \<Rightarrow> jsstring \<Rightarrow> (json \<times> jsstring) option"
  and parseElements :: "nat \<Rightarrow> jsstring \<Rightarrow> (json list \<times> jsstring) option"
  and parseMembers :: "nat \<Rightarrow> jsstring \<Rightarrow> ((jsstring \<times> json) list \<times> jsstring) option" where
  "parseValue 0 s = None"
| "parseValue (Suc n) s =
     (case s of
        [] \<Rightarrow> None
      | c # cs \<Rightarrow>
          if c = 0x7B then
            (case skipWs cs of
               [] \<Rightarrow> None
             | d # ds \<Rightarrow>
                 if d = 0x7D then Some (JObject [], ds)
                 else (case parseMembers n (d # ds) of
                         None \<Rightarrow> None
                       | Some (ms, r) \<Rightarrow> Some (JObject ms, r)))
          else if c = 0x5B then
            (case skipWs cs of
               [] \<Rightarrow> None
             | d # ds \<Rightarrow>
                 if d = 0x5D then Some (JArray [], ds)
                 else (case parseElements n (d # ds) of
                         None \<Rightarrow> None
                       | Some (vs, r) \<Rightarrow> Some (JArray vs, r)))
          else if c = 0x22 then
            (case parseChars cs of None \<Rightarrow> None | Some (str, r) \<Rightarrow> Some (JString str, r))
          else if take 4 s = js ''true'' then Some (JBool True, drop 4 s)
          else if take 5 s = js ''false'' then Some (JBool False, drop 5 s)
          else if take 4 s = js ''null'' then Some (JNull, drop 4 s)
          else (case parseNumber s of None \<Rightarrow> None | Some (l, r) \<Rightarrow> Some (JNumber l, r)))"
| "parseElements 0 s = None"
| "parseElements (Suc n) s =
     (case parseValue n s of
        None \<Rightarrow> None
      | Some (v, r) \<Rightarrow>
          (case skipWs r of
             [] \<Rightarrow> None
           | c # cs \<Rightarrow>
               if c = 0x5D then Some ([v], cs)
               else if c = 0x2C then
                 (case parseElements n (skipWs cs) of
                    None \<Rightarrow> None
                  | Some (vs, r') \<Rightarrow> Some (v # vs, r'))
               else None))"
| "parseMembers 0 s = None"
| "parseMembers (Suc n) s =
     (case s of
        [] \<Rightarrow> None
      | q # qs \<Rightarrow>
          if q \<noteq> 0x22 then None
          else
            (case parseChars qs of
               None \<Rightarrow> None
             | Some (k, r) \<Rightarrow>
                 (case skipWs r of
                    [] \<Rightarrow> None
                  | c # cs \<Rightarrow>
                      if c \<noteq> 0x3A then None
                      else
                        (case parseValue n (skipWs cs) of
                           None \<Rightarrow> None
                         | Some (v, r') \<Rightarrow>
                             (case skipWs r' of
                                [] \<Rightarrow> None
                              | e # es \<Rightarrow>
                                  if e = 0x7D then Some ([(k, v)], es)
                                  else if e = 0x2C then
                                    (case parseMembers n (skipWs es) of
                                       None \<Rightarrow> None
                                     | Some (ms, r'') \<Rightarrow> Some ((k, v) # ms, r''))
                                  else None)))))"

definition JSON_parse :: "jsstring \<Rightarrow> error + json" where
  \<comment> \<open>Each recursive call comes after at least one character of the text was read or
     is followed by one that reads one, so twice the length of the text is fuel enough.\<close>
  "JSON_parse t =
     (case parseValue (2 * length t + 2) (skipWs t) of
        None \<Rightarrow> Inl SyntaxError
      | Some (v, r) \<Rightarrow> if skipWs r = [] then Inr v else Inl SyntaxError)"

section \<open>types.ts\<close>

text \<open>
  \<open>coreWord\<close> and \<open>pronunciation\<close> are objects with the fields \<open>jp\<close>, \<open>en\<close>, \<open>zh\<close>;
  \<open>definitions\<close> has \<open>jp_furigana\<close> besides. The history item is the one that
  \<open>handleSearch\<close> builds (\<open>id\<close>, \<open>timestamp\<close>, \<open>word\<close>, \<open>data\<close>, \<open>imageUrl\<close>).
\<close>

datatype ExampleLang = ExampleJP | ExampleEN

record ExampleSentence =
  exampleText :: jsstring
  translation :: jsstring
  lang :: ExampleLang

record Trilingual =
  jp :: jsstring
  en :: jsstring
  zh :: jsstring

record Definitions = Trilingual +
  jp_furigana :: jsstring

record Related =
  synonyms :: "jsstring list"
  antonyms :: "jsstring list"

record WordData =
  inputWord :: jsstring
  coreWord :: Trilingual
  pronunciation :: Trilingual
  definitions :: Definitions
  examples :: "ExampleSentence list"
  etymology :: jsstring
  related :: Related

record HistoryItem =
  id :: jsstring
  timestamp :: int
  word :: jsstring
  data :: WordData
  imageUrl :: "jsstring option"

datatype LoadingState = IDLE | ANALYZING | GENERATING_IMAGE | COMPLETE | ERROR

section \<open>services/geminiService.ts\<close>

text \<open>
  The SDK client holds the key it was made with. The backend is what
  \<open>models.generateContent\<close> resolves to for a client and a request: \<open>Inl\<close> is a
  rejected call. A request is told by its method and by what the method puts into it
  (the prompt and the response schema around it are the same at every call). Of a
  response the model keeps its \<open>text\<close> and the parts of its first candidate, and of a
  part the base64 \<open>data\<close> of its \<open>inlineData\<close>, when it has one.
\<close>

datatype GoogleGenAI = GoogleGenAI jsstring

record GeminiService =
  ai :: "GoogleGenAI option"

datatype Lang = JP | EN | ZH

datatype request =
    WordRequest jsstring
  | SentenceRequest jsstring
  | ImageRequest jsstring
  | SpeechRequest jsstring jsstring

record part =
  inlineData :: "jsstring option"

record response =
  responseText :: "jsstring option"
  candidateParts :: "part list option"

type_synonym backend = "GoogleGenAI \<Rightarrow> request \<Rightarrow> error + response"

definition newGeminiService :: "jsstring option \<Rightarrow> GeminiService" where
  \<comment> \<open>The constructor, run with \<open>process.env.API_KEY\<close>.\<close>
  "newGeminiService apiKey =
     (if truthy apiKey then \<lparr>ai = Some (GoogleGenAI (the apiKey))\<rparr> else \<lparr>ai = None\<rparr>)"

definition getClient :: "jsstring option \<Rightarrow> GeminiService \<Rightarrow> (error + GoogleGenAI) \<times> GeminiService" where
  "getClient apiKey svc =
     (case ai svc of
        Some client \<Rightarrow> (Inr client, svc)
      | None \<Rightarrow>
          if \<not> truthy apiKey then (Inl ApiKeyMissing, svc)
          else (Inr (GoogleGenAI (the apiKey)), svc\<lparr>ai := Some (GoogleGenAI (the apiKey))\<rparr>))"

definition wordRequired :: "jsstring list" where
  \<comment> \<open>The \<open>required\<close> list of the response schema that \<open>analyzeWord\<close> sends.\<close>
  "wordRequired =
     [js ''coreWord'', js ''pronunciation'', js ''definitions'', js ''examples'',
      js ''etymology'', js ''related'']"

definition analyzeWord ::
  "jsstring option \<Rightarrow> backend \<Rightarrow> jsstring \<Rightarrow> GeminiService \<Rightarrow> (error + json) \<times> GeminiService" where
  \<comment> \<open>\<open>JSON.parse(response.text) as WordData\<close>: the cast checks nothing at run time,
     so the result is the parsed value.\<close>
  "analyzeWord apiKey backend query svc =
     (case getClient apiKey svc of
        (Inl e, svc') \<Rightarrow> (Inl e, svc')
      | (Inr client, svc') \<Rightarrow>
          (case backend client (WordRequest query) of
             Inl e \<Rightarrow> (Inl e, svc')
           | Inr response \<Rightarrow>
               if \<not> truthy (responseText response) then (Inl NoTextResponse, svc')
               else (JSON_parse (the (responseText response)), svc')))"

definition analyzeSentence ::
  "jsstring option \<Rightarrow> backend \<Rightarrow> jsstring \<Rightarrow> GeminiService \<Rightarrow> (error + json) \<times> GeminiService" where
  "analyzeSentence apiKey backend sentence svc =
     (case getClient apiKey svc of
        (Inl e, svc') \<Rightarrow> (Inl e, svc')
      | (Inr client, svc') \<Rightarrow>
          (case backend client (SentenceRequest sentence) of
             Inl e \<Rightarrow> (Inl e, svc')
           | Inr response \<Rightarrow>
               if \<not> truthy (responseText response) then (Inl NoTextResponse, svc')
               else (JSON_parse (the (responseText response)), svc')))"

fun firstImage :: "part list \<Rightarrow> jsstring option" where
  \<comment> \<open>The loop over the parts: the first one with inline data is returned.\<close>
  "firstImage [] = None"
| "firstImage (p # ps) =
     (case inlineData p of
        Some d \<Rightarrow> Some (js ''data:image/png;base64,'' @ d)
      | None \<Rightarrow> firstImage ps)"

definition generateImage ::
  "jsstring option \<Rightarrow> backend \<Rightarrow> jsstring \<Rightarrow> GeminiService \<Rightarrow> (error + jsstring option) \<times> GeminiService" where
  \<comment> \<open>The whole body is inside \<open>try\<close>; the \<open>catch\<close> logs and returns \<open>null\<close>.\<close>
  "generateImage apiKey backend w svc =
     (case getClient apiKey svc of
        (Inl e, svc') \<Rightarrow> (Inr None, svc')
      | (Inr client, svc') \<Rightarrow>
          (case backend client (ImageRequest w) of
             Inl e \<Rightarrow> (Inr None, svc')
           | Inr response \<Rightarrow>
               (Inr (firstImage (case candidateParts response of None \<Rightarrow> [] | Some ps \<Rightarrow> ps)), svc')))"

function cleanText :: "jsstring \<Rightarrow> jsstring" where
  \<comment> \<open>\<open>text.replace(/<[^>]*>?/gm, '')\<close>: a match starts at a less-than sign, takes
     the longest run of characters other than the greater-than sign after it, and then one
     greater-than sign when there is one; every match is removed.\<close>
  "cleanText [] = []"
| "cleanText (c # cs) =
     (if c = 0x3C then cleanText (drop 1 (dropWhile (\<lambda>x. x \<noteq> 0x3E) cs))
      else c # cleanText cs)"
  by pat_completeness auto
termination
  by (relation "measure length")
     (auto simp add: less_Suc_eq_le intro: le_trans [OF diff_le_self length_dropWhile_le])

definition voiceName :: "Lang \<Rightarrow> jsstring" where
  "voiceName l = (if l = JP then js ''Kore'' else if l = EN then js ''Fenrir'' else js ''Puck'')"

definition generateSpeech ::
  "jsstring option \<Rightarrow> backend \<Rightarrow> jsstring \<Rightarrow> Lang \<Rightarrow> GeminiService \<Rightarrow> (error + jsstring option) \<times> GeminiService" where
  \<comment> \<open>The result is the base64 audio that goes on to decoding and playback, if any.
     Everything from \<open>getClient\<close> on is inside \<open>try\<close>, and the \<open>catch\<close> only logs, so
     the call never rejects.\<close>
  "generateSpeech apiKey backend t l svc =
     (case getClient apiKey svc of
        (Inl e, svc') \<Rightarrow> (Inr None, svc')
      | (Inr client, svc') \<Rightarrow>
          (case backend client (SpeechRequest (cleanText t) (voiceName l)) of
             Inl e \<Rightarrow> (Inr None, svc')
           | Inr response \<Rightarrow>
               (case candidateParts response of
                  None \<Rightarrow> (Inr None, svc')
                | Some [] \<Rightarrow> (Inr None, svc')
                | Some (p # ps) \<Rightarrow>
                    (Inr (if truthy (inlineData p) then inlineData p else None), svc'))))"

section \<open>App\<close>

text \<open>
  The component's state. \<open>persisted\<close> stands for the entry of \<open>localStorage\<close> under
  \<open>trilingua_history\<close> as the save effect writes it: the text
  \<open>JSON.stringify(history)\<close>, kept as the history it serialises; \<open>None\<close> before the
  effect has written.
\<close>

record AppState =
  query :: jsstring
  currentData :: "WordData option"
  currentImage :: "jsstring option"
  loadingState :: LoadingState
  error :: "jsstring option"
  history :: "HistoryItem list"
  isSidebarOpen :: bool
  persisted :: "HistoryItem list option"

definition loadHistory :: "jsstring option \<Rightarrow> json" where
  \<comment> \<open>The mount effect, given what \<open>localStorage.getItem\<close> returned: the value of
     \<open>history\<close> after it, as the JSON value it is (\<open>setHistory\<close> takes whatever was
     parsed). The state starts as \<open>[]\<close>; a \<open>SyntaxError\<close> is caught and logged.\<close>
  "loadHistory saved =
     (if truthy saved then
        (case JSON_parse (the saved) of
           Inl e \<Rightarrow> JArray []
         | Inr v \<Rightarrow> v)
      else JArray [])"

definition addToHistory :: "WordData \<Rightarrow> HistoryItem \<Rightarrow> HistoryItem list \<Rightarrow> HistoryItem list" where
  \<comment> \<open>The updater passed to \<open>setHistory\<close>.\<close>
  "addToHistory d newItem prev =
     (let filtered = filter (\<lambda>item.
            jp (coreWord (data item)) \<noteq> jp (coreWord d) \<and>
            en (coreWord (data item)) \<noteq> en (coreWord d)) prev
      in take 50 (newItem # filtered))"

fun addAll :: "(WordData \<times> HistoryItem) list \<Rightarrow> HistoryItem list \<Rightarrow> HistoryItem list list" where
  \<comment> \<open>The histories after each of a sequence of updates, oldest first.\<close>
  "addAll [] h = []"
| "addAll ((d, newItem) # rest) h = addToHistory d newItem h # addAll rest (addToHistory d newItem h)"

definition handleSearch ::
  "(jsstring \<Rightarrow> error + WordData) \<Rightarrow> (jsstring \<Rightarrow> error + jsstring option) \<Rightarrow> int \<Rightarrow> int \<Rightarrow>
   AppState \<Rightarrow> AppState" where
  \<comment> \<open>\<open>analyze\<close> and \<open>genImage\<close> are what the two awaited calls of the service resolve
     to, at the types the source declares for them (\<open>WordData\<close>, \<open>string | null\<close>);
     \<open>now1\<close> and \<open>now2\<close> are the two readings of \<open>Date.now()\<close>. Both calls are inside
     \<open>try\<close>. \<open>setHistory\<close> installs a new array, so the save effect, which depends on
     \<open>history\<close>, runs after it and writes the new history.\<close>
  "handleSearch analyze genImage now1 now2 st =
     (if trim (query st) = [] then st
      else
        let st1 = st\<lparr>loadingState := ANALYZING, error := None, currentData := None,
                      currentImage := None\<rparr>;
            failed = st1\<lparr>error := Some (js ''Unable to analyze the word. Please check your API key or try again.''),
                          loadingState := ERROR\<rparr>
        in case analyze (query st) of
             Inl e \<Rightarrow> failed
           | Inr d \<Rightarrow>
               (let st2 = st1\<lparr>currentData := Some d, loadingState := GENERATING_IMAGE\<rparr> in
                case genImage (en (coreWord d)) of
                  Inl e \<Rightarrow> st2\<lparr>error := error failed, loadingState := ERROR\<rparr>
                | Inr img \<Rightarrow>
                    (let st3 = (if truthy img then st2\<lparr>currentImage := img\<rparr> else st2);
                         st4 = st3\<lparr>loadingState := COMPLETE\<rparr>;
                         newItem = \<lparr>id = Number_toString now1, timestamp = now2,
                                    word = jp (coreWord d), data = d,
                                    imageUrl = (if truthy img then img else None)\<rparr>;
                         h = addToHistory d newItem (history st4)
                     in st4\<lparr>history := h, persisted := Some h\<rparr>)))"

definition headers :: "jsstring list" where
  "headers =
     [js ''Timestamp'', js ''Input'', js ''JP'', js ''EN'', js ''ZH'', js ''JP_Pron'',
      js ''EN_Pron'', js ''Definition_JP'', js ''Definition_EN'']"

definition replaceQuotes :: "jsstring \<Rightarrow> jsstring" where
  \<comment> \<open>\<open>s.replace(/"/g, '""')\<close>\<close>
  "replaceQuotes s = concat (map (\<lambda>c. if c = 0x22 then [0x22, 0x22] else [c]) s)"

definition exportRow :: "HistoryItem \<Rightarrow> error + jsstring list" where
  "exportRow h =
     (case toISOString (timestamp h) of
        Inl e \<Rightarrow> Inl e
      | Inr stamp \<Rightarrow>
          Inr [stamp,
               inputWord (data h),
               jp (coreWord (data h)),
               en (coreWord (data h)),
               zh (coreWord (data h)),
               jp (pronunciation (data h)),
               en (pronunciation (data h)),
               [0x22] @ replaceQuotes (jp (definitions (data h))) @ [0x22],
               [0x22] @ replaceQuotes (en (definitions (data h))) @ [0x22]])"

fun exportRows :: "HistoryItem list \<Rightarrow> error + jsstring list list" where
  \<comment> \<open>\<open>history.map(h => [...])\<close>, which stops at the first item whose date is invalid.\<close>
  "exportRows [] = Inr []"
| "exportRows (h # hs) =
     (case exportRow h of
        Inl e \<Rightarrow> Inl e
      | Inr r \<Rightarrow> (case exportRows hs of Inl e \<Rightarrow> Inl e | Inr rs \<Rightarrow> Inr (r # rs)))"

definition exportHistory :: "HistoryItem list \<Rightarrow> error + jsstring option" where
  \<comment> \<open>The text of the file offered for download; \<open>None\<close> when the history is empty and
     nothing is produced.\<close>
  "exportHistory hist =
     (if length hist = 0 then Inr None
      else
        (case exportRows hist of
           Inl e \<Rightarrow> Inl e
         | Inr rows \<Rightarrow>
             Inr (Some (join [0x0A] (join (js '','') headers # map (join (js '','')) rows)))))"

section \<open>Reading a CSV field back\<close>

text \<open>
  Standard CSV unescaping of one field, as a reader of the exported file does it: the
  outer quotes of a quoted field are stripped and every doubled quote inside becomes one
  quote; a field that is not quoted is taken as it is.
\<close>

fun collapseQuotes :: "jsstring \<Rightarrow> jsstring" where
  "collapseQuotes (a # b # cs) =
     (if a = 0x22 \<and> b = 0x22 then 0x22 # collapseQuotes cs else a # collapseQuotes (b # cs))"
| "collapseQuotes cs = cs"

definition csvUnescape :: "jsstring \<Rightarrow> jsstring" where
  "csvUnescape f =
     (if 2 \<le> length f \<and> hd f = 0x22 \<and> last f = 0x22 then collapseQuotes (butlast (tl f))
      else f)"

fun splitFields :: "bool \<Rightarrow> jsstring \<Rightarrow> jsstring \<Rightarrow> jsstring list" where
  \<comment> \<open>A CSV line cut into its raw fields at the commas that are outside quotes: the
     quoting state, the field read so far, and the rest of the line.\<close>
  "splitFields q acc [] = [acc]"
| "splitFields q acc (c # cs) =
     (if c = 0x22 then splitFields (\<not> q) (acc @ [c]) cs
      else if c = 0x2C \<and> \<not> q then acc # splitFields False [] cs
      else splitFields q (acc @ [c]) cs)"

section \<open>Sample data\<close>

definition sampleWord :: "jsstring \<Rightarrow> jsstring \<Rightarrow> WordData" where
  "sampleWord j e =
     \<lparr>inputWord = j,
      coreWord = \<lparr>jp = j, en = e, zh = []\<rparr>,
      pronunciation = \<lparr>jp = [], en = [], zh = []\<rparr>,
      definitions = \<lparr>jp = [], en = [], zh = [], jp_furigana = []\<rparr>,
      examples = [], etymology = [],
      related = \<lparr>synonyms = [], antonyms = []\<rparr>\<rparr>"

definition sampleItem :: "int \<Rightarrow> jsstring \<Rightarrow> jsstring \<Rightarrow> HistoryItem" where
  "sampleItem t j e =
     \<lparr>id = [], timestamp = t, word = j, data = sampleWord j e, imageUrl = None\<rparr>"

definition fullHistory :: "HistoryItem list" where
  \<comment> \<open>Fifty items with pairwise different words: \<open>a\<close>/\<open>b\<close>, \<open>aa\<close>/\<open>bb\<close>, ...\<close>
  "fullHistory =
     map (\<lambda>k. sampleItem (int k) (replicate (Suc k) 0x61) (replicate (Suc k) 0x62)) [0..<50]"

definition rubyExample :: jsstring where
  \<comment> \<open>The text \<open><ruby>XX<rt>YYY</rt></ruby>Z\<close> with the kanji 65E5 672C for \<open>XX\<close>, the
     kana 306B 307B 3093 for \<open>YYY\<close> and the kana 306F for \<open>Z\<close>.\<close>
  "rubyExample =
     js ''<ruby>'' @ [0x65E5, 0x672C] @ js ''<rt>'' @ [0x306B, 0x307B, 0x3093] @
     js ''</rt></ruby>'' @ [0x306F]"

definition emptyObjectBackend :: backend where
  \<comment> \<open>A backend that answers every request with the text \<open>{}\<close>.\<close>
  "emptyObjectBackend client req = Inr \<lparr>responseText = Some (js ''{}''), candidateParts = None\<rparr>"

definition textBackend :: "jsstring option \<Rightarrow> backend" where
  \<comment> \<open>A backend that answers every request with the given text.\<close>
  "textBackend t client req = Inr \<lparr>responseText = t, candidateParts = None\<rparr>"

definition failingBackend :: backend where
  \<comment> \<open>A backend that rejects every request.\<close>
  "failingBackend client req = Inl BackendError"

definition initialState :: AppState where
  \<comment> \<open>The initial values of the \<open>useState\<close> calls.\<close>
  "initialState =
     \<lparr>query = [], currentData = None, currentImage = None, loadingState = IDLE,
      error = None, history = [], isSidebarOpen = False, persisted = None\<rparr>"

definition exportSample :: "jsstring \<Rightarrow> jsstring \<Rightarrow> HistoryItem" where
  \<comment> \<open>An item of 2024-11-03 with the given \<open>coreWord.en\<close> and \<open>definitions.en\<close>.\<close>
  "exportSample e d =
     \<lparr>id = js ''1730615445123'', timestamp = 1730615445123, word = js ''neko'',
      data = \<lparr>inputWord = js ''neko'',
               coreWord = \<lparr>jp = js ''neko'', en = e, zh = js ''mao''\<rparr>,
               pronunciation = \<lparr>jp = js ''neko'', en = js ''kat'', zh = js ''mao''\<rparr>,
               definitions = \<lparr>jp = js ''neko da'', en = d, zh = [], jp_furigana = []\<rparr>,
               examples = [], etymology = [],
               related = \<lparr>synonyms = [], antonyms = []\<rparr>\<rparr>,
      imageUrl = None\<rparr>"

definition sampleAnalyze :: "jsstring \<Rightarrow> error + WordData" where
  \<comment> \<open>An analysis that succeeds for every query.\<close>
  "sampleAnalyze q = Inr (sampleWord q (js ''cat''))"

definition failingAnalyze :: "jsstring \<Rightarrow> error + WordData" where
  \<comment> \<open>An analysis that fails for every query, as it does without a key.\<close>
  "failingAnalyze q = Inl ApiKeyMissing"

section \<open>Failure of the image request\<close>

definition imageBackendFails :: "jsstring option \<Rightarrow> backend \<Rightarrow> jsstring \<Rightarrow> GeminiService \<Rightarrow> bool" where
  \<comment> \<open>No client can be had, or the backend rejects the image request.\<close>
  "imageBackendFails apiKey backend w svc =
     (case fst (getClient apiKey svc) of
        Inl e \<Rightarrow> True
      | Inr client \<Rightarrow> (case backend client (ImageRequest w) of Inl e \<Rightarrow> True | Inr r \<Rightarrow> False))"

section \<open>The history update\<close>

lemma addToHistory_Cons:
  "addToHistory d n prev =
     n # take 49 (filter (\<lambda>item. jp (coreWord (data item)) \<noteq> jp (coreWord d) \<and>
                                 en (coreWord (data item)) \<noteq> en (coreWord d)) prev)"
  by (simp add: addToHistory_def take_Cons')

lemma length_addToHistory: "length (addToHistory d n prev) \<le> 50"
  by (simp add: addToHistory_def)

lemma addAll_bounded: "\<forall>h' \<in> set (addAll ins h). length h' \<le> 50"
  by (induction ins h rule: addAll.induct) (simp_all add: length_addToHistory)

lemma addToHistory_full:
  assumes "length prev = 50"
    and "\<forall>item \<in> set prev. jp (coreWord (data item)) \<noteq> jp (coreWord d) \<and>
                            en (coreWord (data item)) \<noteq> en (coreWord d)"
  shows "addToHistory d n prev = n # butlast prev"
proof -
  have "filter (\<lambda>item. jp (coreWord (data item)) \<noteq> jp (coreWord d) \<and>
                       en (coreWord (data item)) \<noteq> en (coreWord d)) prev = prev"
    using assms(2) by (simp add: filter_id_conv)
  then show ?thesis
    using assms(1) by (simp add: addToHistory_Cons butlast_conv_take)
qed

lemma length_fullHistory: "length fullHistory = 50"
  by (simp add: fullHistory_def)

lemma fullHistory_other_words:
  "\<forall>item \<in> set fullHistory. jp (coreWord (data item)) \<noteq> js ''neko'' \<and>
                                  en (coreWord (data item)) \<noteq> js ''cat''"
  by (auto simp add: fullHistory_def sampleItem_def sampleWord_def js_def)

text \<open>
  C1: the new item is at the front of the updated history, and behind it no item of the
  previous history is left whose \<open>coreWord.jp\<close> equals the new record's or whose
  \<open>coreWord.en\<close> equals the new record's: one of the two fields matching is enough.
\<close>

theorem history_dedup_either_field:
  "hd (addToHistory d newItem prev) = newItem \<and>
   (\<forall>item \<in> set prev.
      jp (coreWord (data item)) = jp (coreWord d) \<or> en (coreWord (data item)) = en (coreWord d)
      \<longrightarrow> item \<notin> set (tl (addToHistory d newItem prev))) \<and>
   (\<forall>item \<in> set (tl (addToHistory d newItem prev)).
      jp (coreWord (data item)) \<noteq> jp (coreWord d) \<and> en (coreWord (data item)) \<noteq> en (coreWord d))"
proof -
  let ?keep = "\<lambda>item. jp (coreWord (data item)) \<noteq> jp (coreWord d) \<and>
                       en (coreWord (data item)) \<noteq> en (coreWord d)"
  have tl_eq: "tl (addToHistory d newItem prev) = take 49 (filter ?keep prev)"
    by (simp add: addToHistory_Cons)
  have sub: "set (tl (addToHistory d newItem prev)) \<subseteq> {item \<in> set prev. ?keep item}"
    using set_take_subset [of 49 "filter ?keep prev"] by (simp add: tl_eq)
  have "hd (addToHistory d newItem prev) = newItem"
    by (simp add: addToHistory_Cons)
  with sub show ?thesis by blast
qed

theorem history_dedup_either_field_witness:
  "sampleItem 1 (js ''neko'') (js ''kitty'') \<in>
     set [sampleItem 1 (js ''neko'') (js ''kitty''), sampleItem 2 (js ''inu'') (js ''dog''),
          sampleItem 3 (js ''nyanko'') (js ''cat'')] \<and>
   jp (coreWord (data (sampleItem 1 (js ''neko'') (js ''kitty'')))) =
     jp (coreWord (sampleWord (js ''neko'') (js ''cat''))) \<and>
   en (coreWord (data (sampleItem 1 (js ''neko'') (js ''kitty'')))) \<noteq>
     en (coreWord (sampleWord (js ''neko'') (js ''cat''))) \<and>
   sampleItem 1 (js ''neko'') (js ''kitty'') \<notin>
     set (tl (addToHistory (sampleWord (js ''neko'') (js ''cat'')) (sampleItem 4 (js ''neko'') (js ''cat''))
       [sampleItem 1 (js ''neko'') (js ''kitty''), sampleItem 2 (js ''inu'') (js ''dog''),
        sampleItem 3 (js ''nyanko'') (js ''cat'')])) \<and>
   addToHistory (sampleWord (js ''neko'') (js ''cat'')) (sampleItem 4 (js ''neko'') (js ''cat''))
       [sampleItem 1 (js ''neko'') (js ''kitty''), sampleItem 2 (js ''inu'') (js ''dog''),
        sampleItem 3 (js ''nyanko'') (js ''cat'')]
     = [sampleItem 4 (js ''neko'') (js ''cat''), sampleItem 2 (js ''inu'') (js ''dog'')]"
  using history_dedup_either_field [of "sampleWord (js ''neko'') (js ''cat'')"
       "sampleItem 4 (js ''neko'') (js ''cat'')"
       "[sampleItem 1 (js ''neko'') (js ''kitty''), sampleItem 2 (js ''inu'') (js ''dog''),
         sampleItem 3 (js ''nyanko'') (js ''cat'')]"]
  by (simp add: addToHistory_def sampleItem_def sampleWord_def js_def)

text \<open>
  C2: a history of at most 50 items stays at most 50 items long through every sequence
  of updates (every update yields at most 50 items, whatever it started from), and an
  update of a history of exactly 50 items none of which matches the new record yields the
  new item followed by the first 49 old ones: only the last, oldest item is dropped.
\<close>

theorem history_capacity:
  "length (addToHistory d newItem prev) \<le> 50 \<and>
   (length h \<le> 50 \<longrightarrow> (\<forall>h' \<in> set (h # addAll ins h). length h' \<le> 50)) \<and>
   (length prev = 50 \<and>
    (\<forall>item \<in> set prev. jp (coreWord (data item)) \<noteq> jp (coreWord d) \<and>
                          en (coreWord (data item)) \<noteq> en (coreWord d))
    \<longrightarrow> addToHistory d newItem prev = newItem # butlast prev)"
  using length_addToHistory [of d newItem prev] addAll_bounded [of ins h]
    addToHistory_full [of prev d newItem]
  by simp

theorem history_capacity_witness:
  "length fullHistory = 50 \<and>
   addToHistory (sampleWord (js ''neko'') (js ''cat'')) (sampleItem 50 (js ''neko'') (js ''cat''))
       fullHistory
     = sampleItem 50 (js ''neko'') (js ''cat'') # butlast fullHistory \<and>
   length (addToHistory (sampleWord (js ''neko'') (js ''cat''))
       (sampleItem 50 (js ''neko'') (js ''cat'')) fullHistory) = 50 \<and>
   map length (fullHistory #
       addAll [(sampleWord (js ''neko'') (js ''cat''), sampleItem 50 (js ''neko'') (js ''cat'')),
               (sampleWord (js ''inu'') (js ''dog''), sampleItem 51 (js ''inu'') (js ''dog''))]
         fullHistory) = [50, 50, 50]"
proof -
  let ?d = "sampleWord (js ''neko'') (js ''cat'')"
  let ?n = "sampleItem 50 (js ''neko'') (js ''cat'')"
  let ?d2 = "sampleWord (js ''inu'') (js ''dog'')"
  let ?n2 = "sampleItem 51 (js ''inu'') (js ''dog'')"
  have other: "\<forall>item \<in> set fullHistory. jp (coreWord (data item)) \<noteq> jp (coreWord ?d) \<and>
                                         en (coreWord (data item)) \<noteq> en (coreWord ?d)"
    using fullHistory_other_words by (simp add: sampleWord_def)
  have step: "addToHistory ?d ?n fullHistory = ?n # butlast fullHistory"
    using history_capacity [of ?d ?n fullHistory fullHistory "[(?d, ?n), (?d2, ?n2)]"]
      length_fullHistory other by blast
  have bound: "\<forall>h' \<in> set (fullHistory # addAll [(?d, ?n), (?d2, ?n2)] fullHistory). length h' \<le> 50"
    using history_capacity [of ?d ?n fullHistory fullHistory "[(?d, ?n), (?d2, ?n2)]"]
      length_fullHistory by simp
  have len1: "length (addToHistory ?d ?n fullHistory) = 50"
    by (simp add: step length_fullHistory)
  have other2: "\<forall>item \<in> set (?n # butlast fullHistory).
      jp (coreWord (data item)) \<noteq> jp (coreWord ?d2) \<and> en (coreWord (data item)) \<noteq> en (coreWord ?d2)"
    by (auto simp add: fullHistory_def sampleItem_def sampleWord_def js_def dest!: in_set_butlastD)
  have full1: "length (?n # butlast fullHistory) = 50"
    by (simp add: length_fullHistory)
  have "addToHistory ?d2 ?n2 (?n # butlast fullHistory) = ?n2 # butlast (?n # butlast fullHistory)"
    using addToHistory_full [OF full1 other2] .
  then have len2: "length (addToHistory ?d2 ?n2 (addToHistory ?d ?n fullHistory)) = 50"
    by (simp del: butlast.simps add: step length_fullHistory)
  show ?thesis
    using step len1 len2 by (simp add: length_fullHistory)
qed

section \<open>analyzeWord and the response text\<close>

lemma parse_empty_object: "JSON_parse (js ''{}'') = Inr (JObject [])"
  by code_simp

lemma parse_notjson: "JSON_parse (js ''not json'') = Inl SyntaxError"
  by code_simp

lemma getClient_new_key: "truthy apiKey \<Longrightarrow> fst (getClient apiKey (newGeminiService apiKey)) = Inr (GoogleGenAI (the apiKey))"
  by (simp add: getClient_def newGeminiService_def)

text \<open>
  C3, as stated, fails: with a key set and a backend that answers with the text \<open>{}\<close>,
  \<open>analyzeWord\<close> returns the parsed empty object, in which every one of the six
  required fields is missing.
\<close>

theorem analyzeWord_returns_unchecked_payload:
  "fst (analyzeWord (Some (js ''key'')) emptyObjectBackend (js ''neko'') (newGeminiService (Some (js ''key''))))
     = Inr (JObject []) \<and>
   map (\<lambda>k. field k (JObject [])) wordRequired = [None, None, None, None, None, None]"
  by (simp add: analyzeWord_def getClient_def newGeminiService_def emptyObjectBackend_def truthy_def
      parse_empty_object field_def wordRequired_def) (simp add: js_def)

text \<open>
  C3, amended: when the client is there and the backend answers, \<open>analyzeWord\<close> raises
  \<open>NoTextResponse\<close> if the response text is absent or empty and \<open>SyntaxError\<close> if the
  text is not valid JSON; for a text that is valid JSON it returns the parsed value as it
  is, whatever fields it has.
\<close>

theorem analyzeWord_result:
  assumes "fst (getClient apiKey svc) = Inr client"
    and "backend client (WordRequest q) = Inr r"
  shows "(\<not> truthy (responseText r) \<longrightarrow> fst (analyzeWord apiKey backend q svc) = Inl NoTextResponse) \<and>
         (truthy (responseText r) \<and> JSON_parse (the (responseText r)) = Inl e \<longrightarrow>
            e = SyntaxError \<and> fst (analyzeWord apiKey backend q svc) = Inl SyntaxError) \<and>
         (truthy (responseText r) \<and> JSON_parse (the (responseText r)) = Inr v \<longrightarrow>
            fst (analyzeWord apiKey backend q svc) = Inr v)"
proof -
  obtain svc' where g: "getClient apiKey svc = (Inr client, svc')"
    using assms(1) by (cases "getClient apiKey svc") simp
  have err: "JSON_parse (the (responseText r)) = Inl e \<Longrightarrow> e = SyntaxError"
    by (auto simp add: JSON_parse_def split: option.splits if_splits)
  show ?thesis
    using err by (auto simp add: analyzeWord_def g assms(2))
qed

theorem analyzeWord_result_witness:
  "fst (analyzeWord (Some (js ''key'')) (textBackend None) (js ''neko'') (newGeminiService (Some (js ''key''))))
     = Inl NoTextResponse \<and>
   fst (analyzeWord (Some (js ''key'')) (textBackend (Some [])) (js ''neko'') (newGeminiService (Some (js ''key''))))
     = Inl NoTextResponse \<and>
   fst (analyzeWord (Some (js ''key'')) (textBackend (Some (js ''not json''))) (js ''neko'')
         (newGeminiService (Some (js ''key''))))
     = Inl SyntaxError \<and>
   fst (analyzeWord (Some (js ''key'')) (textBackend (Some (js ''{}''))) (js ''neko'')
         (newGeminiService (Some (js ''key''))))
     = Inr (JObject [])"
proof -
  let ?key = "Some (js ''key'')"
  let ?svc = "newGeminiService ?key"
  have k: "truthy ?key"
    by (simp add: truthy_def js_def)
  have c: "fst (getClient ?key ?svc) = Inr (GoogleGenAI (js ''key''))"
    using getClient_new_key [OF k] by simp
  have b: "\<And>t. textBackend t (GoogleGenAI (js ''key'')) (WordRequest (js ''neko''))
             = Inr \<lparr>responseText = t, candidateParts = None\<rparr>"
    by (simp add: textBackend_def)
  have p1: "JSON_parse (js ''not json'') = Inl SyntaxError"
    by (rule parse_notjson)
  have p2: "JSON_parse (js ''{}'') = Inr (JObject [])"
    by (rule parse_empty_object)
  have nj: "js ''not json'' \<noteq> []" and eo: "js ''{}'' \<noteq> []"
    by (simp_all add: js_def)
  show ?thesis
    using analyzeWord_result [of ?key ?svc "GoogleGenAI (js ''key'')" "textBackend None" "js ''neko''"
          "\<lparr>responseText = None, candidateParts = None\<rparr>" SyntaxError JNull]
      analyzeWord_result [of ?key ?svc "GoogleGenAI (js ''key'')" "textBackend (Some [])" "js ''neko''"
          "\<lparr>responseText = Some [], candidateParts = None\<rparr>" SyntaxError JNull]
      analyzeWord_result [of ?key ?svc "GoogleGenAI (js ''key'')" "textBackend (Some (js ''not json''))"
          "js ''neko''" "\<lparr>responseText = Some (js ''not json''), candidateParts = None\<rparr>"
          SyntaxError JNull]
      analyzeWord_result [of ?key ?svc "GoogleGenAI (js ''key'')" "textBackend (Some (js ''{}''))"
          "js ''neko''" "\<lparr>responseText = Some (js ''{}''), candidateParts = None\<rparr>"
          SyntaxError "JObject []"]
      c b
      p1 p2 nj eo
    by (simp add: truthy_def)
qed

section \<open>The text sent to speech generation\<close>

lemma cleanText_no_lt: "0x3C \<notin> set (cleanText s)"
  by (induction s rule: cleanText.induct) auto

text \<open>
  C4, as stated, fails: the cleaned ruby example is not the base text alone (the two
  kanji and the final kana).
\<close>

theorem cleanText_keeps_reading: "cleanText rubyExample \<noteq> [0x65E5, 0x672C, 0x306F]"
  by (simp add: rubyExample_def js_def)

text \<open>
  C4, amended: cleaning the ruby example removes the tags and keeps the text between
  them in order, the reading inside the annotation included: the two kanji, the three
  kana of the reading, the final kana. No cleaned text contains a less-than sign.
\<close>

theorem cleanText_ruby_example: "cleanText rubyExample = [0x65E5, 0x672C, 0x306B, 0x307B, 0x3093, 0x306F] \<and> 0x3C \<notin> set (cleanText s)"
  using cleanText_no_lt [of s] by (simp add: rubyExample_def js_def)

section \<open>The CSV export\<close>

lemma exportRow_sample:
  "exportRow (exportSample e d) =
     Inr [js ''2024-11-03T06:30:45.123Z'', js ''neko'', js ''neko'', e, js ''mao'', js ''neko'',
          js ''kat'', [0x22] @ js ''neko da'' @ [0x22], [0x22] @ replaceQuotes d @ [0x22]]"
proof -
  have "toISOString 1730615445123 = Inr (js ''2024-11-03T06:30:45.123Z'')"
    by code_simp
  then show ?thesis
    by (simp add: exportRow_def exportSample_def replaceQuotes_def js_def)
qed

lemma replaceQuotes_Nil: "replaceQuotes [] = []"
  by (simp add: replaceQuotes_def)

lemma replaceQuotes_Cons:
  "replaceQuotes (c # s) = (if c = 0x22 then [0x22, 0x22] else [c]) @ replaceQuotes s"
  by (simp add: replaceQuotes_def)

lemma collapseQuotes_other: "c \<noteq> 0x22 \<Longrightarrow> collapseQuotes (c # xs) = c # collapseQuotes xs"
  by (cases xs) simp_all

lemma collapse_replace: "collapseQuotes (replaceQuotes s) = s"
  by (induction s) (simp_all add: replaceQuotes_Nil replaceQuotes_Cons collapseQuotes_other)

lemma csvUnescape_quoted: "csvUnescape ([0x22] @ replaceQuotes s @ [0x22]) = s"
  by (simp add: csvUnescape_def collapse_replace butlast_append)

text \<open>
  C5: the export of one item whose \<open>coreWord.en\<close> is \<open>cat, kitty\<close>. The EN column is
  emitted as it is, without quotes, and the line splits into ten fields where the header
  has nine.
\<close>

theorem export_comma_unquoted:
  "exportHistory [exportSample (js ''cat, kitty'') (js ''a cat'')] =
     Inr (Some (js ''Timestamp,Input,JP,EN,ZH,JP_Pron,EN_Pron,Definition_JP,Definition_EN'' @ [0x0A] @
                js ''2024-11-03T06:30:45.123Z,neko,neko,cat, kitty,mao,neko,kat,'' @
                [0x22] @ js ''neko da'' @ [0x22, 0x2C, 0x22] @ js ''a cat'' @ [0x22])) \<and>
   length (splitFields False []
     (js ''2024-11-03T06:30:45.123Z,neko,neko,cat, kitty,mao,neko,kat,'' @
                [0x22] @ js ''neko da'' @ [0x22, 0x2C, 0x22] @ js ''a cat'' @ [0x22])) = 10"
  by (simp add: exportHistory_def exportRow_sample headers_def replaceQuotes_def js_def)

text \<open>
  C7: for an item whose \<open>definitions.en\<close> contains a double quote and a comma, the
  ninth field of the exported row is that text with every double quote doubled, between
  two double quotes, and CSV unescaping of the field gives the text back.
\<close>

theorem csv_roundtrip:
  assumes "0x22 \<in> set (en (definitions (data h)))"
    and "0x2C \<in> set (en (definitions (data h)))"
    and "exportRow h = Inr r"
  shows "r ! 8 = [0x22] @ replaceQuotes (en (definitions (data h))) @ [0x22] \<and>
         csvUnescape (r ! 8) = en (definitions (data h))"
proof -
  have "r ! 8 = [0x22] @ replaceQuotes (en (definitions (data h))) @ [0x22]"
    using assms(3) by (auto simp add: exportRow_def split: sum.splits)
  then show ?thesis
    using csvUnescape_quoted [of "en (definitions (data h))"] by simp
qed

theorem csv_roundtrip_witness:
  "0x22 \<in> set (js ''a '' @ [0x22] @ js ''small'' @ [0x22] @ js '' cat, tame'') \<and>
   0x2C \<in> set (js ''a '' @ [0x22] @ js ''small'' @ [0x22] @ js '' cat, tame'') \<and>
   exportRow (exportSample (js ''cat'') (js ''a '' @ [0x22] @ js ''small'' @ [0x22] @ js '' cat, tame'')) =
     Inr [js ''2024-11-03T06:30:45.123Z'', js ''neko'', js ''neko'', js ''cat'', js ''mao'',
          js ''neko'', js ''kat'', [0x22] @ js ''neko da'' @ [0x22],
          [0x22] @ js ''a '' @ [0x22, 0x22] @ js ''small'' @ [0x22, 0x22] @ js '' cat, tame'' @ [0x22]] \<and>
   csvUnescape ([0x22] @ js ''a '' @ [0x22, 0x22] @ js ''small'' @ [0x22, 0x22] @ js '' cat, tame'' @ [0x22]) =
     js ''a '' @ [0x22] @ js ''small'' @ [0x22] @ js '' cat, tame'' \<and>
   map csvUnescape (splitFields False []
       (js ''2024-11-03T06:30:45.123Z,neko,neko,cat,mao,neko,kat,'' @ [0x22] @ js ''neko da'' @
        [0x22, 0x2C, 0x22] @ js ''a '' @ [0x22, 0x22] @ js ''small'' @ [0x22, 0x22] @
        js '' cat, tame'' @ [0x22])) ! 8 =
     js ''a '' @ [0x22] @ js ''small'' @ [0x22] @ js '' cat, tame''"
proof -
  let ?d = "js ''a '' @ [0x22] @ js ''small'' @ [0x22] @ js '' cat, tame''"
  let ?h = "exportSample (js ''cat'') ?d"
  let ?q = "[0x22] @ js ''a '' @ [0x22, 0x22] @ js ''small'' @ [0x22, 0x22] @ js '' cat, tame'' @ [0x22]"
  let ?r = "[js ''2024-11-03T06:30:45.123Z'', js ''neko'', js ''neko'', js ''cat'', js ''mao'',
          js ''neko'', js ''kat'', [0x22] @ js ''neko da'' @ [0x22], ?q]"
  have h1: "0x22 \<in> set (en (definitions (data ?h)))"
    by (simp add: exportSample_def js_def)
  have h2: "0x2C \<in> set (en (definitions (data ?h)))"
    by (simp add: exportSample_def js_def)
  have h3: "exportRow ?h = Inr ?r"
    by (simp add: exportRow_sample) (simp add: replaceQuotes_def js_def)
  have "csvUnescape (?r ! 8) = en (definitions (data ?h))"
    using csv_roundtrip [OF h1 h2 h3] by blast
  then have u: "csvUnescape ?q = ?d"
    by (simp add: exportSample_def)
  have s: "map csvUnescape (splitFields False []
       (js ''2024-11-03T06:30:45.123Z,neko,neko,cat,mao,neko,kat,'' @ [0x22] @ js ''neko da'' @
        [0x22, 0x2C, 0x22] @ js ''a '' @ [0x22, 0x22] @ js ''small'' @ [0x22, 0x22] @
        js '' cat, tame'' @ [0x22])) ! 8 = ?d"
    by (simp add: js_def csvUnescape_def)
  show ?thesis
    using h1 h2 h3 u s by (simp add: exportSample_def)
qed

section \<open>The missing key\<close>

lemma getClient_new_missing: "\<not> truthy apiKey \<Longrightarrow> getClient apiKey (newGeminiService apiKey) = (Inl ApiKeyMissing, newGeminiService apiKey)"
  by (simp add: getClient_def newGeminiService_def)

text \<open>
  C6, as stated, fails: without a key, \<open>generateImage\<close> and \<open>generateSpeech\<close> do not
  fail with the configuration error; they return \<open>null\<close> and nothing.
\<close>

theorem missing_key_swallowed:
  "fst (generateImage None emptyObjectBackend (js ''cat'') (newGeminiService None)) \<noteq> Inl ApiKeyMissing \<and>
   fst (generateSpeech None emptyObjectBackend (js ''neko'') JP (newGeminiService None)) \<noteq> Inl ApiKeyMissing \<and>
   fst (generateImage None emptyObjectBackend (js ''cat'') (newGeminiService None)) = Inr None \<and>
   fst (generateSpeech None emptyObjectBackend (js ''neko'') JP (newGeminiService None)) = Inr None"
  by (simp add: generateImage_def generateSpeech_def getClient_def newGeminiService_def truthy_def)

text \<open>
  C6, amended: when the key is absent (or empty) at construction and at the call, word
  analysis and sentence analysis fail with the configuration error, whatever the backend
  would answer; image generation returns \<open>null\<close> and speech generation returns without
  playing anything, the error being caught inside them.
\<close>

theorem missing_key:
  "\<not> truthy apiKey \<Longrightarrow>
   fst (analyzeWord apiKey backend q (newGeminiService apiKey)) = Inl ApiKeyMissing \<and>
   fst (analyzeSentence apiKey backend q (newGeminiService apiKey)) = Inl ApiKeyMissing \<and>
   fst (generateImage apiKey backend w (newGeminiService apiKey)) = Inr None \<and>
   fst (generateSpeech apiKey backend t l (newGeminiService apiKey)) = Inr None"
  by (simp add: analyzeWord_def analyzeSentence_def generateImage_def generateSpeech_def getClient_new_missing)

theorem missing_key_witness:
  "\<not> truthy None \<and>
   fst (analyzeWord None emptyObjectBackend (js ''neko'') (newGeminiService None)) = Inl ApiKeyMissing \<and>
   fst (analyzeSentence None emptyObjectBackend (js ''neko da'') (newGeminiService None)) = Inl ApiKeyMissing \<and>
   fst (generateImage None emptyObjectBackend (js ''cat'') (newGeminiService None)) = Inr None \<and>
   fst (generateSpeech None emptyObjectBackend (js ''neko'') JP (newGeminiService None)) = Inr None \<and>
   \<not> truthy (Some []) \<and>
   fst (analyzeWord (Some []) emptyObjectBackend (js ''neko'') (newGeminiService (Some []))) = Inl ApiKeyMissing"
  using missing_key [of None emptyObjectBackend "js ''neko''" "js ''cat''" "js ''neko''" JP]
    missing_key [of "Some []" emptyObjectBackend "js ''neko''" "js ''cat''" "js ''neko''" JP]
    missing_key [of None emptyObjectBackend "js ''neko da''" "js ''cat''" "js ''neko''" JP]
  by (simp add: truthy_def)

section \<open>Loading the history\<close>

text \<open>
  C8: when the stored text is not valid JSON, the history after the mount effect is the
  empty array it started as; the effect has no error to raise, the \<open>SyntaxError\<close> being
  caught in it.
\<close>

theorem load_corrupt: "JSON_parse s = Inl e \<Longrightarrow> loadHistory (Some s) = JArray []"
  by (simp add: loadHistory_def)

theorem load_corrupt_witness: "JSON_parse (js ''not json'') = Inl SyntaxError \<and> loadHistory (Some (js ''not json'')) = JArray []"
  using load_corrupt [OF parse_notjson] parse_notjson by simp

section \<open>handleSearch\<close>

lemma trim_neko: "trim (js ''neko'') = js ''neko''"
  by (simp add: trim_def isWhiteSpace_def js_def)

lemma generateImage_failure:
  "imageBackendFails apiKey backend w svc \<Longrightarrow> fst (generateImage apiKey backend w svc) = Inr None"
  by (cases "getClient apiKey svc")
     (auto simp add: imageBackendFails_def generateImage_def split: sum.splits)

lemma handleSearch_no_image:
  assumes "trim (query st) \<noteq> []"
    and "analyze (query st) = Inr d"
    and "genImage (en (coreWord d)) = Inr None"
  shows "handleSearch analyze genImage now1 now2 st =
           st\<lparr>loadingState := COMPLETE, error := None, currentData := Some d, currentImage := None,
              history := addToHistory d \<lparr>id = Number_toString now1, timestamp = now2,
                  word = jp (coreWord d), data = d, imageUrl = None\<rparr> (history st),
              persisted := Some (addToHistory d \<lparr>id = Number_toString now1, timestamp = now2,
                  word = jp (coreWord d), data = d, imageUrl = None\<rparr> (history st))\<rparr>"
  using assms by (simp add: handleSearch_def Let_def truthy_def)

lemma handleSearch_analysis_failed:
  assumes "analyze (query st) = Inl e"
  shows "history (handleSearch analyze genImage now1 now2 st) = history st"
    and "persisted (handleSearch analyze genImage now1 now2 st) = persisted st"
    and "trim (query st) \<noteq> [] \<Longrightarrow> loadingState (handleSearch analyze genImage now1 now2 st) = ERROR"
  using assms by (simp_all add: handleSearch_def Let_def)

text \<open>
  C9: for a query that is not blank and an analysis that succeeds, when no client can be
  had or the backend rejects the image request, \<open>generateImage\<close> returns \<open>null\<close> and
  \<open>handleSearch\<close> ends in \<open>COMPLETE\<close> with no error message, the analysed record on
  display, no image on display, and a new history item at the front that has no image.
\<close>

theorem image_failure_completes:
  assumes "trim (query st) \<noteq> []"
    and "analyze (query st) = Inr d"
    and "imageBackendFails apiKey backend (en (coreWord d)) svc"
  shows "fst (generateImage apiKey backend (en (coreWord d)) svc) = Inr None \<and>
         loadingState (handleSearch analyze (\<lambda>w. fst (generateImage apiKey backend w svc)) now1 now2 st)
           = COMPLETE \<and>
         error (handleSearch analyze (\<lambda>w. fst (generateImage apiKey backend w svc)) now1 now2 st)
           = None \<and>
         currentData (handleSearch analyze (\<lambda>w. fst (generateImage apiKey backend w svc)) now1 now2 st)
           = Some d \<and>
         currentImage (handleSearch analyze (\<lambda>w. fst (generateImage apiKey backend w svc)) now1 now2 st)
           = None \<and>
         hd (history (handleSearch analyze (\<lambda>w. fst (generateImage apiKey backend w svc)) now1 now2 st))
           = \<lparr>id = Number_toString now1, timestamp = now2, word = jp (coreWord d), data = d,
              imageUrl = None\<rparr>"
proof -
  have img: "fst (generateImage apiKey backend (en (coreWord d)) svc) = Inr None"
    using assms(3) by (rule generateImage_failure)
  have "handleSearch analyze (\<lambda>w. fst (generateImage apiKey backend w svc)) now1 now2 st =
           st\<lparr>loadingState := COMPLETE, error := None, currentData := Some d, currentImage := None,
              history := addToHistory d \<lparr>id = Number_toString now1, timestamp = now2,
                  word = jp (coreWord d), data = d, imageUrl = None\<rparr> (history st),
              persisted := Some (addToHistory d \<lparr>id = Number_toString now1, timestamp = now2,
                  word = jp (coreWord d), data = d, imageUrl = None\<rparr> (history st))\<rparr>"
    using assms(1,2) img by (intro handleSearch_no_image) simp_all
  then show ?thesis
    using img by (simp add: addToHistory_def)
qed

theorem image_failure_completes_witness:
  "trim (query (initialState\<lparr>query := js ''neko''\<rparr>)) \<noteq> [] \<and>
   sampleAnalyze (query (initialState\<lparr>query := js ''neko''\<rparr>)) = Inr (sampleWord (js ''neko'') (js ''cat'')) \<and>
   imageBackendFails (Some (js ''key'')) failingBackend (js ''cat'') (newGeminiService (Some (js ''key''))) \<and>
   loadingState (handleSearch sampleAnalyze
       (\<lambda>w. fst (generateImage (Some (js ''key'')) failingBackend w (newGeminiService (Some (js ''key'')))))
       1730615445123 1730615445123 (initialState\<lparr>query := js ''neko''\<rparr>)) = COMPLETE \<and>
   currentImage (handleSearch sampleAnalyze
       (\<lambda>w. fst (generateImage (Some (js ''key'')) failingBackend w (newGeminiService (Some (js ''key'')))))
       1730615445123 1730615445123 (initialState\<lparr>query := js ''neko''\<rparr>)) = None \<and>
   map imageUrl (history (handleSearch sampleAnalyze
       (\<lambda>w. fst (generateImage (Some (js ''key'')) failingBackend w (newGeminiService (Some (js ''key'')))))
       1730615445123 1730615445123 (initialState\<lparr>query := js ''neko''\<rparr>))) = [None]"
proof -
  let ?st = "initialState\<lparr>query := js ''neko''\<rparr>"
  let ?svc = "newGeminiService (Some (js ''key''))"
  let ?d = "sampleWord (js ''neko'') (js ''cat'')"
  have h1: "trim (query ?st) \<noteq> []"
    by (simp add: trim_neko) (simp add: js_def)
  have h2: "sampleAnalyze (query ?st) = Inr ?d"
    by (simp add: sampleAnalyze_def)
  have en: "en (coreWord ?d) = js ''cat''"
    by (simp add: sampleWord_def)
  have h3: "imageBackendFails (Some (js ''key'')) failingBackend (en (coreWord ?d)) ?svc"
    by (simp add: imageBackendFails_def getClient_def newGeminiService_def failingBackend_def)
  note inst = image_failure_completes [of ?st sampleAnalyze ?d "Some (js ''key'')" failingBackend ?svc
      1730615445123 1730615445123, OF h1 h2 h3]
  have img: "fst (generateImage (Some (js ''key'')) failingBackend (js ''cat'') ?svc) = Inr None"
    using inst by (simp add: en)
  have "history (handleSearch sampleAnalyze (\<lambda>w. fst (generateImage (Some (js ''key'')) failingBackend w ?svc))
       1730615445123 1730615445123 ?st) =
      [\<lparr>id = Number_toString 1730615445123, timestamp = 1730615445123, word = jp (coreWord ?d),
        data = ?d, imageUrl = None\<rparr>]"
    using h1 h2 img by (simp add: handleSearch_def Let_def truthy_def addToHistory_def initialState_def en)
  then show ?thesis
    using h1 h2 h3 inst by (simp add: en)
qed

text \<open>
  C10: when the analysis fails, the history and what is persisted of it are after
  \<open>handleSearch\<close> what they were before (and the state is \<open>ERROR\<close> for a query that is
  not blank); so a call that changes either of them is one whose analysis succeeded.
\<close>

theorem analysis_failure_keeps_history:
  "(analyze (query st) = Inl e \<longrightarrow>
      history (handleSearch analyze genImage now1 now2 st) = history st \<and>
      persisted (handleSearch analyze genImage now1 now2 st) = persisted st \<and>
      (trim (query st) \<noteq> [] \<longrightarrow>
         loadingState (handleSearch analyze genImage now1 now2 st) = ERROR)) \<and>
   (history (handleSearch analyze genImage now1 now2 st) \<noteq> history st \<or>
    persisted (handleSearch analyze genImage now1 now2 st) \<noteq> persisted st
    \<longrightarrow> (\<exists>d. analyze (query st) = Inr d))"
proof (cases "analyze (query st)")
  case (Inl a)
  then show ?thesis
    using handleSearch_analysis_failed [of analyze st a genImage now1 now2] by simp
next
  case (Inr d)
  then show ?thesis by simp
qed

theorem analysis_failure_keeps_history_witness:
  "failingAnalyze (query (initialState\<lparr>query := js ''neko'', history := [sampleItem 1 (js ''inu'') (js ''dog'')]\<rparr>))
     = Inl ApiKeyMissing \<and>
   history (handleSearch failingAnalyze (\<lambda>w. Inr None) 2 2
       (initialState\<lparr>query := js ''neko'', history := [sampleItem 1 (js ''inu'') (js ''dog'')]\<rparr>))
     = [sampleItem 1 (js ''inu'') (js ''dog'')] \<and>
   persisted (handleSearch failingAnalyze (\<lambda>w. Inr None) 2 2
       (initialState\<lparr>query := js ''neko'', history := [sampleItem 1 (js ''inu'') (js ''dog'')]\<rparr>))
     = None \<and>
   loadingState (handleSearch failingAnalyze (\<lambda>w. Inr None) 2 2
       (initialState\<lparr>query := js ''neko'', history := [sampleItem 1 (js ''inu'') (js ''dog'')]\<rparr>))
     = ERROR \<and>
   history (handleSearch sampleAnalyze (\<lambda>w. Inr None) 2 2
       (initialState\<lparr>query := js ''neko'', history := [sampleItem 1 (js ''inu'') (js ''dog'')]\<rparr>))
     \<noteq> [sampleItem 1 (js ''inu'') (js ''dog'')] \<and>
   sampleAnalyze (js ''neko'') = Inr (sampleWord (js ''neko'') (js ''cat''))"
proof -
  let ?st = "initialState\<lparr>query := js ''neko'', history := [sampleItem 1 (js ''inu'') (js ''dog'')]\<rparr>"
  have q: "query ?st = js ''neko''" and h: "history ?st = [sampleItem 1 (js ''inu'') (js ''dog'')]"
    and p: "persisted ?st = None"
    by (simp_all add: initialState_def)
  have t: "trim (query ?st) \<noteq> []"
    by (simp add: trim_neko) (simp add: js_def)
  have f: "failingAnalyze (query ?st) = Inl ApiKeyMissing"
    by (simp add: failingAnalyze_def)
  have changed: "history (handleSearch sampleAnalyze (\<lambda>w. Inr None) 2 2 ?st) \<noteq> history ?st"
    using t by (simp add: handleSearch_def Let_def sampleAnalyze_def truthy_def addToHistory_def h
        sampleItem_def sampleWord_def js_def)
  have ok: "\<exists>d. sampleAnalyze (query ?st) = Inr d"
    using analysis_failure_keeps_history [of sampleAnalyze ?st ApiKeyMissing "\<lambda>w. Inr None" 2 2] changed
    by blast
  show ?thesis
    using analysis_failure_keeps_history [of failingAnalyze ?st ApiKeyMissing "\<lambda>w. Inr None" 2 2]
      f t changed ok
    by (simp add: h p q sampleAnalyze_def)
qed

end
